theory Spec2Isabelle
  imports
    Complex_Main
    "HOL-Library.Char_ord"
    "HOL-Library.List_Lexorder"
    "HOL-Library.Product_Lexorder"
    "HOL-Library.Multiset"
begin

section \<open>Conventions of the embedding\<close>

text \<open>
  The curation service (app/models.py, app/scoring.py, app/llm_client.py, app/main.py) is
  embedded shallowly.  Python floats are modelled as exact rationals (\<^typ>\<open>rat\<close>): the
  score arithmetic is read as exact arithmetic, NaN and rounding are outside the model.
  Python strings are \<^typ>\<open>string\<close>; \<open>str.lower()\<close> is modelled on the ASCII letters.
  An \<open>Optional[str]\<close> is a \<^typ>\<open>string option\<close>, and Python truthiness of such a value
  (not None and not empty) is written out.  Two field names are taken in HOL or by an
  earlier record: \<open>Product.id\<close> is \<open>id_p\<close> and \<open>Location.country\<close> is \<open>country_l\<close>.
\<close>

subsection \<open>Strings\<close>

definition lower_char :: "char \<Rightarrow> char" where
  "lower_char c =
     (case map_of (zip ''ABCDEFGHIJKLMNOPQRSTUVWXYZ'' ''abcdefghijklmnopqrstuvwxyz'') c of
        Some d \<Rightarrow> d
      | None \<Rightarrow> c)"

definition lower :: "string \<Rightarrow> string" where
  "lower s = map lower_char s"

fun starts_with :: "string \<Rightarrow> string \<Rightarrow> bool" where
  "starts_with [] s = True"
| "starts_with (a # as) [] = False"
| "starts_with (a # as) (c # cs) = (a = c \<and> starts_with as cs)"

text \<open>Python \<open>sub in s\<close> on strings.\<close>

fun contains :: "string \<Rightarrow> string \<Rightarrow> bool" where
  "contains sub [] = (sub = [])"
| "contains sub (c # cs) = (starts_with sub (c # cs) \<or> contains sub cs)"

text \<open>Truthiness of an \<open>Optional[str]\<close>, and \<open>x or d\<close>.\<close>

definition truthy :: "string option \<Rightarrow> bool" where
  "truthy x = (case x of None \<Rightarrow> False | Some s \<Rightarrow> s \<noteq> [])"

definition or_else :: "string option \<Rightarrow> string \<Rightarrow> string" where
  "or_else x d = (case x of None \<Rightarrow> d | Some s \<Rightarrow> if s \<noteq> [] then s else d)"

text \<open>
  Python slicing \<open>xs[:n]\<close> for any integer \<open>n\<close>: a negative bound counts from the end.
\<close>

definition py_take :: "int \<Rightarrow> 'a list \<Rightarrow> 'a list" where
  "py_take n xs = (if 0 \<le> n then take (nat n) xs else take (length xs - nat (- n)) xs)"

subsection \<open>The data model (app/models.py)\<close>

record Location =
  city :: "string option"
  state :: "string option"
  address :: "string option"
  country_l :: "string option"
  postcode :: "string option"

text \<open>
  \<open>Profile\<close> allows extra fields; the five that the code reads with \<open>getattr\<close> when no
  nested location is given are the \<open>flat_\<close> fields.  They are modelled at the type the code
  uses them at (optional strings).
\<close>

record Profile =
  tier :: "string option"
  location :: "Location option"
  venueType :: string
  cuisineStyle :: "string option"
  budgetBand :: "string option"
  flat_city :: "string option"
  flat_state :: "string option"
  flat_country :: "string option"
  flat_address :: "string option"
  flat_postcode :: "string option"

record Product =
  id_p :: string
  sku :: "string option"
  name :: string
  product_web_description :: "string option"
  supplier :: "string option"
  brand :: "string option"
  country :: "string option"
  region :: "string option"
  visibility :: "string option"
  category_level_1 :: "string option"
  category_level_2 :: "string option"
  category_level_3 :: "string option"
  category_level_4 :: "string option"
  sold_at_cairns :: "int option"
  sold_at_brisbane :: "int option"
  sold_at_adelaide :: "int option"
  sold_at_melbourne :: "int option"
  sold_at_sydney :: "int option"
  tags :: "string list option"
  origin :: "string option"
  supplier_tier :: "string option"
  is_bundle :: bool
  locality_score :: rat
  category_fitness :: rat
  supplier_boost :: rat
  composite_score :: rat

record CurateRequest =
  profile :: Profile
  maxProducts :: "int option"

record CurateResponse =
  curatedProductIds :: "string list"
  curatedProducts :: "Product list"
  reasoning :: "string list"
  confidence :: rat
  platinumSupplierProducts :: "string list"
  platinumProducts :: "Product list"
  bundledPacks :: "string list"
  bundledProducts :: "Product list"
  localFavorites :: "string list"
  localFavoriteProducts :: "Product list"
  businessInsights :: "string list"
  nextSteps :: "string list"
  generatedAt :: nat

record LLMResponse =
  llm_curatedProductIds :: "string list"
  llm_reasoning :: "string list"
  llm_confidence :: rat
  llm_platinumSupplierProducts :: "string list"
  llm_bundledPacks :: "string list"
  llm_localFavorites :: "string list"
  llm_businessInsights :: "string list"
  llm_nextSteps :: "string list"

section \<open>Scoring engine (app/scoring.py, class ProductScorer)\<close>

subsection \<open>The fixed tables\<close>

definition venue_weights :: "string \<rightharpoonup> (string \<rightharpoonup> rat)" where
  "venue_weights =
     [''restaurant'' \<mapsto>
        [''wine'' \<mapsto> 1, ''champagne'' \<mapsto> 8/10, ''sparkling'' \<mapsto> 8/10,
         ''spirits'' \<mapsto> 3/10, ''beer'' \<mapsto> 2/10, ''default'' \<mapsto> 5/10],
      ''fine dining'' \<mapsto>
        [''wine'' \<mapsto> 1, ''champagne'' \<mapsto> 1, ''sparkling'' \<mapsto> 9/10,
         ''spirits'' \<mapsto> 4/10, ''beer'' \<mapsto> 1/10, ''default'' \<mapsto> 6/10],
      ''bistro'' \<mapsto>
        [''wine'' \<mapsto> 9/10, ''champagne'' \<mapsto> 6/10, ''sparkling'' \<mapsto> 7/10,
         ''spirits'' \<mapsto> 4/10, ''beer'' \<mapsto> 3/10, ''default'' \<mapsto> 5/10],
      ''bar'' \<mapsto>
        [''wine'' \<mapsto> 6/10, ''champagne'' \<mapsto> 4/10, ''sparkling'' \<mapsto> 5/10,
         ''spirits'' \<mapsto> 9/10, ''beer'' \<mapsto> 8/10, ''default'' \<mapsto> 7/10],
      ''cafe'' \<mapsto>
        [''wine'' \<mapsto> 3/10, ''champagne'' \<mapsto> 2/10, ''sparkling'' \<mapsto> 3/10,
         ''spirits'' \<mapsto> 2/10, ''beer'' \<mapsto> 4/10, ''default'' \<mapsto> 4/10]]"

definition supplier_weights :: "string \<rightharpoonup> rat" where
  "supplier_weights =
     [''platinum'' \<mapsto> 1, ''gold'' \<mapsto> 8/10, ''silver'' \<mapsto> 6/10,
      ''bronze'' \<mapsto> 4/10, ''default'' \<mapsto> 5/10]"

text \<open>
  \<open>d.get(k, v)\<close>, and the subscript \<open>d[k]\<close>.  The code subscripts only the fixed tables
  above, at keys they contain (\<open>"restaurant"\<close>, \<open>"default"\<close>), so the KeyError of a
  subscript cannot occur; \<open>subscript\<close> returns 0 on the branch that is never taken.
\<close>

definition dict_get :: "('k \<rightharpoonup> 'v) \<Rightarrow> 'k \<Rightarrow> 'v \<Rightarrow> 'v" where
  "dict_get d k v = (case d k of Some w \<Rightarrow> w | None \<Rightarrow> v)"

definition subscript :: "('k \<rightharpoonup> rat) \<Rightarrow> 'k \<Rightarrow> rat" where
  "subscript d k = (case d k of Some w \<Rightarrow> w | None \<Rightarrow> 0)"

definition restaurant_table :: "string \<rightharpoonup> rat" where
  "restaurant_table = (case venue_weights ''restaurant'' of Some t \<Rightarrow> t | None \<Rightarrow> Map.empty)"

subsection \<open>Location of a profile\<close>

text \<open>
  \<open>_get_location_from_profile\<close> (the same body in scoring.py and main.py): the nested
  location when there is one, the flat fields otherwise.  A \<open>Location\<close> object is always
  truthy.
\<close>

definition get_location_from_profile :: "Profile \<Rightarrow> Location" where
  "get_location_from_profile pr =
     (case location pr of
        Some l \<Rightarrow> \<lparr>city = city l, state = state l, address = address l,
                   country_l = country_l l, postcode = postcode l\<rparr>
      | None \<Rightarrow> \<lparr>city = flat_city pr, state = flat_state pr, address = flat_address pr,
                 country_l = flat_country pr, postcode = flat_postcode pr\<rparr>)"

subsection \<open>Sub-scores\<close>

text \<open>The five-way city chain shared by the locality score and the local favourites.\<close>

definition city_bonus :: "Location \<Rightarrow> Product \<Rightarrow> rat" where
  "city_bonus loc p =
     (if truthy (city loc) then
        (let city_lower = lower (or_else (city loc) []) in
         if city_lower = ''sydney'' \<and> sold_at_sydney p = Some 1 then 3/10
         else if city_lower = ''melbourne'' \<and> sold_at_melbourne p = Some 1 then 3/10
         else if city_lower = ''brisbane'' \<and> sold_at_brisbane p = Some 1 then 3/10
         else if city_lower = ''adelaide'' \<and> sold_at_adelaide p = Some 1 then 3/10
         else if city_lower = ''cairns'' \<and> sold_at_cairns p = Some 1 then 3/10
         else 0)
      else 0)"

definition calculate_locality_score :: "Product \<Rightarrow> Profile \<Rightarrow> rat" where
  "calculate_locality_score p pr =
     (let loc = get_location_from_profile pr;
          s1 = city_bonus loc p;
          s2 = s1 + (if truthy (state loc) \<and> truthy (region p)
                       \<and> contains (lower (or_else (state loc) [])) (lower (or_else (region p) []))
                     then 2/10 else 0);
          s3 = s2 + (if truthy (country_l loc) \<and> truthy (country p)
                       \<and> contains (lower (or_else (country_l loc) [])) (lower (or_else (country p) []))
                     then 2/10 else 0);
          s4 = s3 + (if truthy (origin p) \<and> truthy (country_l loc)
                       \<and> contains (lower (or_else (country_l loc) [])) (lower (or_else (origin p) []))
                     then 1/10 else 0)
      in min s4 1)"

text \<open>\<open>_extract_category\<close>: the first level that classifies decides.\<close>

fun classify_levels :: "string option list \<Rightarrow> string" where
  "classify_levels [] = ''default''"
| "classify_levels (l # ls) =
     (if truthy l then
        (let category = lower (or_else l []) in
         if contains ''wine'' category then ''wine''
         else if contains ''champagne'' category then ''champagne''
         else if contains ''sparkling'' category then ''sparkling''
         else if contains ''spirit'' category then ''spirits''
         else if contains ''beer'' category then ''beer''
         else if contains ''liquor'' category then ''spirits''
         else classify_levels ls)
      else classify_levels ls)"

definition extract_category :: "Product \<Rightarrow> string" where
  "extract_category p =
     classify_levels [category_level_1 p, category_level_2 p, category_level_3 p]"

definition calculate_category_fitness :: "Product \<Rightarrow> Profile \<Rightarrow> rat" where
  "calculate_category_fitness p pr =
     (let venue_type = lower (venueType pr);
          cuisine_style = lower (or_else (cuisineStyle pr) []);
          weights = dict_get venue_weights venue_type restaurant_table;
          category = extract_category p;
          base_weight = dict_get weights category (subscript weights ''default'');
          b1 = (if venue_type = ''fine dining'' \<and> cuisine_style = ''fine dining''
                  \<and> (category = ''champagne'' \<or> category = ''sparkling'')
                then base_weight + 2/10 else base_weight);
          b2 = (if is_bundle p then b1 + 1/10 else b1)
      in min b2 1)"

definition calculate_supplier_boost :: "Product \<Rightarrow> rat" where
  "calculate_supplier_boost p =
     (if \<not> truthy (supplier_tier p) then subscript supplier_weights ''default''
      else dict_get supplier_weights (lower (or_else (supplier_tier p) []))
             (subscript supplier_weights ''default''))"

text \<open>\<open>_calculate_composite_score\<close> reads the three sub-scores stored on the product.\<close>

definition calculate_composite_score :: "Product \<Rightarrow> rat" where
  "calculate_composite_score p =
     (let locality_weight = 3/10; category_weight = 4/10;
          supplier_weight = 2/10; bundle_weight = 1/10;
          score = locality_weight * locality_score p + category_weight * category_fitness p
                  + supplier_weight * supplier_boost p
                  + bundle_weight * (if is_bundle p then 1/10 else 0)
      in min score 1)"

subsection \<open>score_products\<close>

text \<open>
  The body of the scoring loop for one product: four assignments to the product's own
  fields, in the order of the source (the composite score reads the three just stored).
\<close>

definition score_one :: "Profile \<Rightarrow> Product \<Rightarrow> Product" where
  "score_one pr p =
     (let p1 = p\<lparr>locality_score := calculate_locality_score p pr\<rparr>;
          p2 = p1\<lparr>category_fitness := calculate_category_fitness p1 pr\<rparr>;
          p3 = p2\<lparr>supplier_boost := calculate_supplier_boost p2\<rparr>
      in p3\<lparr>composite_score := calculate_composite_score p3\<rparr>)"

definition visible :: "Product \<Rightarrow> bool" where
  "visible p = (visibility p = Some ''4'')"

text \<open>
  The sort key of the source, a tuple compared lexicographically:
  \<open>(p.composite_score, supplier_weights.get(p.supplier_tier or "default", 0), p.supplier or "")\<close>.
\<close>

definition sort_key_of :: "Product \<Rightarrow> rat \<times> rat \<times> string" where
  "sort_key_of p =
     (composite_score p,
      dict_get supplier_weights (or_else (supplier_tier p) ''default'') 0,
      or_else (supplier p) [])"

text \<open>
  \<open>sorted(xs, key=k, reverse=True)\<close>: a stable sort into descending key order, in which
  elements with equal keys keep their input order.  The result of a stable sort is
  determined by the key order, so it is given here through the library's stable
  ascending sort.
\<close>

definition sorted_reverse :: "('a \<Rightarrow> 'k::linorder) \<Rightarrow> 'a list \<Rightarrow> 'a list" where
  "sorted_reverse k xs = rev (sort_key k (rev xs))"

text \<open>
  The products are objects shared with the catalogue and the loop assigns to their
  fields in place.  The model therefore takes the catalogue and returns it as it is
  after the call, next to the function's return value: every visible entry carries the
  scores just computed, every other entry is untouched.  (Each catalogue entry is an
  object of its own: the loader builds one per record.)
\<close>

definition catalogue_after :: "Product list \<Rightarrow> Profile \<Rightarrow> Product list" where
  "catalogue_after products pr = map (\<lambda>p. if visible p then score_one pr p else p) products"

definition score_products :: "Product list \<Rightarrow> Profile \<Rightarrow> Product list \<times> Product list" where
  "score_products products pr =
     (let visible_products = filter visible products;
          annotated = map (score_one pr) visible_products;
          scored_products = sorted_reverse sort_key_of annotated
      in (scored_products, catalogue_after products pr))"

subsection \<open>select_candidates\<close>

text \<open>
  The loop of \<open>select_candidates\<close>, with its two local variables: the list
  \<open>candidates\<close> and the Python set \<open>seen_combinations\<close> of pairs.  \<open>count\<close> is the
  number of members of that set equal to the product's pair.
\<close>

fun select_loop ::
  "int \<Rightarrow> Product list \<Rightarrow> Product list \<Rightarrow> (string \<times> string) set \<Rightarrow> Product list" where
  "select_loop top_k [] candidates seen_combinations = candidates"
| "select_loop top_k (product # rest) candidates seen_combinations =
     (if top_k \<le> int (length candidates) then candidates
      else
        (let brand_v = or_else (brand product) ''unknown'';
             category = or_else (category_level_1 product) ''unknown'';
             diversity_key = (lower brand_v, lower category);
             count = card (Set.filter (\<lambda>(b, c). b = lower brand_v \<and> c = lower category)
                             seen_combinations)
         in if count < 3
            then select_loop top_k rest (candidates @ [product])
                   (insert diversity_key seen_combinations)
            else select_loop top_k rest candidates seen_combinations))"

definition select_candidates :: "Product list \<Rightarrow> int \<Rightarrow> Product list" where
  "select_candidates scored_products top_k = select_loop top_k scored_products [] {}"

section \<open>The re-ranking gateway (app/llm_client.py)\<close>

text \<open>
  The values \<open>json.loads\<close> and \<open>response.json()\<close> produce.  A JSON object is the
  association list of its dict; int and float are one constructor, since the code tests
  them together (\<open>isinstance(x, (int, float))\<close>), and a Python bool is an int as well.
\<close>

datatype json =
    JNull
  | JBool bool
  | JNum rat
  | JStr string
  | JList "json list"
  | JObj "(string \<times> json) list"

fun json_truthy :: "json \<Rightarrow> bool" where
  "json_truthy JNull = False"
| "json_truthy (JBool b) = b"
| "json_truthy (JNum r) = (r \<noteq> 0)"
| "json_truthy (JStr s) = (s \<noteq> [])"
| "json_truthy (JList l) = (l \<noteq> [])"
| "json_truthy (JObj kv) = (kv \<noteq> [])"

text \<open>
  What the HTTP call of the gateway does, as the service sees it: \<open>client.post\<close> raises
  (network failure, timeout), or there is a response with a status code whose body
  \<open>response.json()\<close> decodes (\<open>Some\<close>) or fails to decode (\<open>None\<close>).  \<open>CallRaises\<close> is an
  exception that leaves \<open>finalize_candidates\<close> itself and reaches the handler in
  \<open>curate_products\<close>.
\<close>

datatype gateway_outcome =
    CallRaises
  | PostRaises
  | HttpResponse int "json option"

datatype 'a call = Raises | Returns 'a

text \<open>\<open>_call_llm_api\<close>: the decoded body of a 200 response, None otherwise.\<close>

fun call_llm_api :: "gateway_outcome \<Rightarrow> json option" where
  "call_llm_api (HttpResponse status_code body) = (if status_code = 200 then body else None)"
| "call_llm_api g = None"

text \<open>\<open>isinstance(v, (int, float))\<close> and \<open>float(v)\<close> on a decoded JSON value.\<close>

fun is_number :: "json \<Rightarrow> bool" where
  "is_number (JNum r) = True"
| "is_number (JBool b) = True"
| "is_number v = False"

fun float_of :: "json \<Rightarrow> rat" where
  "float_of (JNum r) = r"
| "float_of (JBool b) = (if b then 1 else 0)"
| "float_of v = 0"

text \<open>
  The validation of a \<open>List[str]\<close> field when the \<open>LLMResponse\<close> model is constructed:
  the value has to be a list of strings; anything else raises, inside the \<open>try\<close> of
  \<open>_parse_llm_response\<close>.
\<close>

fun as_str :: "json \<Rightarrow> string option" where
  "as_str (JStr s) = Some s"
| "as_str v = None"

fun all_some :: "'a option list \<Rightarrow> 'a list option" where
  "all_some [] = Some []"
| "all_some (x # xs) =
     (case x of None \<Rightarrow> None
      | Some y \<Rightarrow> (case all_some xs of None \<Rightarrow> None | Some ys \<Rightarrow> Some (y # ys)))"

fun as_str_list :: "json \<Rightarrow> string list option" where
  "as_str_list (JList l) = all_some (map as_str l)"
| "as_str_list v = None"

text \<open>
  Membership \<open>k in data\<close>, the subscript \<open>data[k]\<close> after it, and \<open>data.get(k, [])\<close>, on
  a decoded document.  The code subscripts a key only after the membership test has
  passed, so the value \<open>JNull\<close> that \<open>field\<close> gives for an absent key is never read there.
\<close>

definition has_field :: "json \<Rightarrow> string \<Rightarrow> bool" where
  "has_field data k = (case data of JObj kv \<Rightarrow> map_of kv k \<noteq> None | _ \<Rightarrow> False)"

definition field :: "json \<Rightarrow> string \<Rightarrow> json" where
  "field data k = (case data of JObj kv \<Rightarrow> dict_get (map_of kv) k JNull | _ \<Rightarrow> JNull)"

definition field_or_empty :: "json \<Rightarrow> string \<Rightarrow> json" where
  "field_or_empty data k =
     (case data of JObj kv \<Rightarrow> dict_get (map_of kv) k (JList []) | _ \<Rightarrow> JList [])"

fun is_list :: "json \<Rightarrow> bool" where
  "is_list (JList l) = True"
| "is_list v = False"

fun items :: "json \<Rightarrow> json list" where
  "items (JList l) = l"
| "items v = []"

fun is_object :: "json \<Rightarrow> bool" where
  "is_object (JObj kv) = True"
| "is_object v = False"

definition clamp_confidence :: "rat \<Rightarrow> rat" where
  "clamp_confidence c = (if c < 0 \<or> c > 1 then max 0 (min 1 c) else c)"

text \<open>
  The constructor call \<open>LLMResponse(...)\<close> with its validation: each of the seven list
  arguments has to be a list of strings.
\<close>

definition make_llm_response ::
  "json \<Rightarrow> json \<Rightarrow> rat \<Rightarrow> json \<Rightarrow> json \<Rightarrow> json \<Rightarrow> json \<Rightarrow> json \<Rightarrow> LLMResponse option" where
  "make_llm_response c r cf pl bu lo bi ns =
     (case as_str_list c of None \<Rightarrow> None | Some c' \<Rightarrow>
      case as_str_list r of None \<Rightarrow> None | Some r' \<Rightarrow>
      case as_str_list pl of None \<Rightarrow> None | Some pl' \<Rightarrow>
      case as_str_list bu of None \<Rightarrow> None | Some bu' \<Rightarrow>
      case as_str_list lo of None \<Rightarrow> None | Some lo' \<Rightarrow>
      case as_str_list bi of None \<Rightarrow> None | Some bi' \<Rightarrow>
      case as_str_list ns of None \<Rightarrow> None | Some ns' \<Rightarrow>
        Some \<lparr>llm_curatedProductIds = c', llm_reasoning = r', llm_confidence = cf,
              llm_platinumSupplierProducts = pl', llm_bundledPacks = bu',
              llm_localFavorites = lo', llm_businessInsights = bi', llm_nextSteps = ns'\<rparr>)"

text \<open>
  The second half of \<open>_parse_llm_response\<close>, from "Validate required fields" on, check by
  check.  A decoded value that is not an object fails the membership test or raises at
  the subscript, and every exception is caught and gives None.
\<close>

definition validate_data :: "json \<Rightarrow> int \<Rightarrow> LLMResponse option" where
  "validate_data data max_products =
     (if \<not> is_object data then None
      else if \<not> has_field data ''curatedProductIds'' \<or> \<not> has_field data ''reasoning''
              \<or> \<not> has_field data ''confidence'' then None
      else if \<not> is_list (field data ''curatedProductIds'') then None
      else if \<not> is_list (field data ''reasoning'') then None
      else if \<not> is_number (field data ''confidence'') then None
      else
        (let confidence_v = clamp_confidence (float_of (field data ''confidence''));
             curated_ids = py_take max_products (items (field data ''curatedProductIds''))
         in make_llm_response (JList curated_ids) (field data ''reasoning'') confidence_v
              (field_or_empty data ''platinumSupplierProducts'')
              (field_or_empty data ''bundledPacks'')
              (field_or_empty data ''localFavorites'')
              (field_or_empty data ''businessInsights'')
              (field_or_empty data ''nextSteps'')))"

text \<open>
  The first half: \<open>response["choices"][0].get("message", {}).get("content", "")\<close> with
  its two emptiness tests.  Each wrong shape on the way (a subscript or \<open>.get\<close> on a
  value that does not have it) raises and is caught, which gives None as well.
\<close>

definition llm_content :: "json \<Rightarrow> json option" where
  "llm_content response =
     (case response of
        JObj r \<Rightarrow>
          (case map_of r ''choices'' of
             None \<Rightarrow> None
           | Some choices \<Rightarrow>
               if \<not> json_truthy choices then None
               else
                 (case choices of
                    JList (JObj c0 # others) \<Rightarrow>
                      (case dict_get (map_of c0) ''message'' (JObj []) of
                         JObj m \<Rightarrow>
                           (let content = dict_get (map_of m) ''content'' (JStr [])
                            in if \<not> json_truthy content then None else Some content)
                       | _ \<Rightarrow> None)
                  | _ \<Rightarrow> None))
      | _ \<Rightarrow> None)"

text \<open>
  \<open>json.loads(content)\<close> is the library's parser, a parameter here (\<open>None\<close> when it
  raises JSONDecodeError); on a content that is not a string it raises a TypeError,
  caught by the outer handler.
\<close>

definition parse_llm_response ::
  "(string \<Rightarrow> json option) \<Rightarrow> json \<Rightarrow> int \<Rightarrow> LLMResponse option" where
  "parse_llm_response loads response max_products =
     (case llm_content response of
        None \<Rightarrow> None
      | Some (JStr s) \<Rightarrow>
          (case loads s of
             None \<Rightarrow> None
           | Some data \<Rightarrow> validate_data data max_products)
      | Some other \<Rightarrow> None)"

text \<open>
  \<open>finalize_candidates\<close>.  The prompt and the compact candidates it is built from go to
  the gateway only; the gateway's answer is the outcome given to the model.
\<close>

definition finalize_candidates ::
  "(string \<Rightarrow> json option) \<Rightarrow> gateway_outcome \<Rightarrow> int \<Rightarrow> LLMResponse option call" where
  "finalize_candidates loads g max_products =
     (case g of
        CallRaises \<Rightarrow> Raises
      | _ \<Rightarrow>
          Returns (case call_llm_api g of
                     None \<Rightarrow> None
                   | Some response \<Rightarrow>
                       if json_truthy response
                       then parse_llm_response loads response max_products
                       else None))"

section \<open>The orchestrator (app/main.py)\<close>

subsection \<open>Configuration and surroundings\<close>

text \<open>
  The module-level configuration read from the environment, and what the request takes
  from outside the program: the library's JSON parser, the float formatter behind the
  format specification \<open>.1%\<close>, the clock, and the outcome of the gateway call.
\<close>

record Config =
  default_max_products :: int
  top_k_preselect :: int
  use_llm :: bool
  llm_client :: bool

record World =
  json_loads :: "string \<Rightarrow> json option"
  format_percent :: "rat \<Rightarrow> string"
  utcnow :: nat
  gateway :: gateway_outcome

datatype error = ServiceUnavailable | CurationFailed

subsection \<open>Identifiers\<close>

text \<open>\<open>p.sku or p.id\<close>.\<close>

definition sku_or_id :: "Product \<Rightarrow> string" where
  "sku_or_id p = or_else (sku p) (id_p p)"

text \<open>
  \<open>_map_skus_to_products\<close>: the dict comprehension inserts the candidates in order (a later
  candidate with the same key replaces an earlier one), the list comprehension keeps,
  in the order of \<open>skus\<close>, the entries of those found.
\<close>

definition sku_index :: "Product list \<Rightarrow> (string \<rightharpoonup> Product)" where
  "sku_index candidates = fold (\<lambda>p d. d(sku_or_id p \<mapsto> p)) candidates Map.empty"

definition map_skus_to_products :: "string list \<Rightarrow> Product list \<Rightarrow> Product list" where
  "map_skus_to_products skus candidates =
     (let sku_to_product = sku_index candidates
      in concat (map (\<lambda>s. case sku_to_product s of Some p \<Rightarrow> [p] | None \<Rightarrow> []) skus))"

subsection \<open>Local favourites\<close>

definition local_match :: "Location \<Rightarrow> Product \<Rightarrow> bool" where
  "local_match loc p =
     (truthy (city loc) \<and>
      (let city_lower = lower (or_else (city loc) []) in
         (city_lower = ''sydney'' \<and> sold_at_sydney p = Some 1) \<or>
         (city_lower = ''melbourne'' \<and> sold_at_melbourne p = Some 1) \<or>
         (city_lower = ''brisbane'' \<and> sold_at_brisbane p = Some 1) \<or>
         (city_lower = ''adelaide'' \<and> sold_at_adelaide p = Some 1) \<or>
         (city_lower = ''cairns'' \<and> sold_at_cairns p = Some 1)))"

definition get_local_favorite_products :: "Product list \<Rightarrow> Profile \<Rightarrow> Product list" where
  "get_local_favorite_products products pr =
     (let loc = get_location_from_profile pr in filter (local_match loc) products)"

subsection \<open>The templated texts\<close>

function str_of_nat :: "nat \<Rightarrow> string" where
  "str_of_nat n =
     (if n < 10 then [''0123456789'' ! n]
      else str_of_nat (n div 10) @ [''0123456789'' ! (n mod 10)])"
  by pat_completeness auto
termination
  by (relation "measure id") auto

declare str_of_nat.simps [simp del]

definition generate_rule_based_reasoning :: "Profile \<Rightarrow> Product list \<Rightarrow> string list" where
  "generate_rule_based_reasoning pr products =
     (let r1 = [''Curated for '' @ venueType pr @ '' venue type''];
          loc = get_location_from_profile pr;
          r2 = (if truthy (city loc)
                then r1 @ [''Prioritized products available in '' @ or_else (city loc) []]
                else r1);
          venue_type = lower (venueType pr);
          r3 = (if venue_type = ''restaurant'' \<or> venue_type = ''fine dining''
                then r2 @ [''Emphasized wine and champagne selections for dining experience'']
                else if venue_type = ''bar''
                then r2 @ [''Focused on spirits and beer for bar service'']
                else r2);
          bundle_count = length (filter is_bundle products);
          r4 = (if bundle_count > 0
                then r3 @ [''Included '' @ str_of_nat bundle_count @ '' curated bundles for variety'']
                else r3);
          platinum_count = length (filter (\<lambda>p. supplier_tier p = Some ''platinum'') products)
      in if platinum_count > 0
         then r4 @ [''Featured '' @ str_of_nat platinum_count @ '' platinum supplier products'']
         else r4)"

text \<open>
  The counting dict of \<open>_generate_business_insights\<close>, in insertion order, and \<open>max\<close> with
  a key, which returns the first of the maximal items.
\<close>

fun bump :: "string \<Rightarrow> (string \<times> nat) list \<Rightarrow> (string \<times> nat) list" where
  "bump k [] = [(k, 1)]"
| "bump k ((k', n) # r) = (if k = k' then (k', n + 1) # r else (k', n) # bump k r)"

fun max_by_count :: "string \<times> nat \<Rightarrow> (string \<times> nat) list \<Rightarrow> string \<times> nat" where
  "max_by_count best [] = best"
| "max_by_count best (x # xs) = max_by_count (if snd best < snd x then x else best) xs"

definition generate_business_insights ::
  "(rat \<Rightarrow> string) \<Rightarrow> Profile \<Rightarrow> Product list \<Rightarrow> string list" where
  "generate_business_insights fmt pr products =
     (let categories = fold (\<lambda>p d. bump (or_else (category_level_1 p) ''Unknown'') d) products [];
          top_category = (case categories of
                            [] \<Rightarrow> (''Unknown'', 0)
                          | x # xs \<Rightarrow> max_by_count x xs);
          i1 = [''Top category: '' @ fst top_category @ '' ('' @ str_of_nat (snd top_category)
                 @ '' products)''];
          suppliers = set (map (\<lambda>p. or_else (supplier p) []) (filter (\<lambda>p. truthy (supplier p)) products));
          i2 = i1 @ [''Products from '' @ str_of_nat (card suppliers) @ '' different suppliers''];
          bundle_ratio = (if products \<noteq> []
                          then of_nat (length (filter is_bundle products)) / of_nat (length products)
                          else (0::rat))
      in if bundle_ratio > 1/10
         then i2 @ [''High bundle ratio ('' @ fmt bundle_ratio @ '') - good for variety'']
         else i2)"

definition generate_next_steps :: "Profile \<Rightarrow> string list" where
  "generate_next_steps pr =
     (let s1 = [''Review curated product list and select initial order'',
                ''Contact suppliers for pricing and availability''];
          v = lower (venueType pr);
          s2 = (if v = ''restaurant'' \<or> v = ''fine dining''
                then s1 @ [''Consider wine pairing recommendations for your menu'',
                           ''Plan staff training on product knowledge'']
                else s1);
          s3 = (if tier pr = Some ''bronze''
                then s2 @ [''Explore upgrade opportunities to access premium products'']
                else s2)
      in s3 @ [''Set up regular reordering schedule'',
               ''Monitor customer preferences and adjust selections''])"

subsection \<open>curate_products\<close>

text \<open>The dictionary \<open>response_data\<close> as first built: the deterministic result.\<close>

definition base_response ::
  "World \<Rightarrow> Profile \<Rightarrow> Product list \<Rightarrow> int \<Rightarrow> CurateResponse" where
  "base_response w pr candidates max_products =
     (let curated_products = py_take max_products candidates;
          platinum_products =
            py_take 10 (filter (\<lambda>p. supplier_tier p = Some ''platinum'') candidates);
          bundled_products = py_take 10 (filter is_bundle candidates);
          local_favorite_products = py_take 10 (get_local_favorite_products candidates pr)
      in \<lparr>curatedProductIds = map sku_or_id curated_products,
          curatedProducts = curated_products,
          reasoning = generate_rule_based_reasoning pr curated_products,
          confidence = 8/10,
          platinumSupplierProducts = map sku_or_id platinum_products,
          platinumProducts = platinum_products,
          bundledPacks = map sku_or_id bundled_products,
          bundledProducts = bundled_products,
          localFavorites = map sku_or_id local_favorite_products,
          localFavoriteProducts = local_favorite_products,
          businessInsights = generate_business_insights (format_percent w) pr candidates,
          nextSteps = generate_next_steps pr,
          generatedAt = utcnow w\<rparr>)"

text \<open>\<open>response_data.update({...})\<close> with the gateway's answer.\<close>

definition merge_llm_response ::
  "CurateResponse \<Rightarrow> LLMResponse \<Rightarrow> Product list \<Rightarrow> int \<Rightarrow> CurateResponse" where
  "merge_llm_response response_data r candidates max_products =
     (let llm_curated_products = map_skus_to_products (llm_curatedProductIds r) candidates;
          llm_platinum_products = map_skus_to_products (llm_platinumSupplierProducts r) candidates;
          llm_bundled_products = map_skus_to_products (llm_bundledPacks r) candidates;
          llm_local_products = map_skus_to_products (llm_localFavorites r) candidates
      in response_data
           \<lparr>curatedProductIds := py_take max_products (llm_curatedProductIds r),
            curatedProducts := py_take max_products llm_curated_products,
            reasoning := llm_reasoning r,
            confidence := llm_confidence r,
            platinumSupplierProducts := llm_platinumSupplierProducts r,
            platinumProducts := llm_platinum_products,
            bundledPacks := llm_bundledPacks r,
            bundledProducts := llm_bundled_products,
            localFavorites := llm_localFavorites r,
            localFavoriteProducts := llm_local_products,
            businessInsights := llm_businessInsights r,
            nextSteps := llm_nextSteps r\<rparr>)"

text \<open>
  \<open>CurateResponse(**response_data)\<close>: the model constrains the confidence to \<open>[0, 1]\<close>; a
  violation raises inside the outer \<open>try\<close> and becomes the HTTP 500 of its handler.
\<close>

definition make_response :: "CurateResponse \<Rightarrow> error + CurateResponse" where
  "make_response r = (if 0 \<le> confidence r \<and> confidence r \<le> 1 then Inr r else Inl CurationFailed)"

definition max_products_of :: "Config \<Rightarrow> CurateRequest \<Rightarrow> int" where
  "max_products_of cfg request =
     (case maxProducts request of
        Some n \<Rightarrow> if n \<noteq> 0 then n else default_max_products cfg
      | None \<Rightarrow> default_max_products cfg)"

text \<open>The candidates of a request: scoring, then selection.\<close>

definition candidates_of :: "Config \<Rightarrow> Product list \<Rightarrow> CurateRequest \<Rightarrow> Product list" where
  "candidates_of cfg products request =
     select_candidates (fst (score_products products (profile request))) (top_k_preselect cfg)"

text \<open>
  The handler.  It returns the response or the error, and the catalogue as the request
  leaves it (\<open>products\<close> is a module-level list whose entries the scoring writes to).
\<close>

definition curate_products ::
  "Config \<Rightarrow> World \<Rightarrow> Product list \<Rightarrow> CurateRequest
     \<Rightarrow> (error + CurateResponse) \<times> Product list" where
  "curate_products cfg w products request =
     (if products = [] then (Inl ServiceUnavailable, products)
      else
        (let max_products = max_products_of cfg request;
             (scored_products, products') = score_products products (profile request);
             candidates = select_candidates scored_products (top_k_preselect cfg);
             response_data = base_response w (profile request) candidates max_products;
             final =
               (if use_llm cfg \<and> llm_client cfg then
                  (case finalize_candidates (json_loads w) (gateway w) max_products of
                     Raises \<Rightarrow> response_data
                   | Returns None \<Rightarrow> response_data
                   | Returns (Some llm_response) \<Rightarrow>
                       merge_llm_response response_data llm_response candidates max_products)
                else response_data)
         in (make_response final, products')))"

section \<open>Notions used to state the properties\<close>

text \<open>A product with its four computed fields reset: what the catalogue owns of it.\<close>

definition unscored :: "Product \<Rightarrow> Product" where
  "unscored p = p\<lparr>locality_score := 0, category_fitness := 0, supplier_boost := 0,
                   composite_score := 0\<rparr>"

text \<open>
  The answer of the gateway that a request merges, if any: the gateway is enabled, the
  call returns, and the answer passes the validation.
\<close>

definition gateway_response :: "Config \<Rightarrow> World \<Rightarrow> CurateRequest \<Rightarrow> LLMResponse option" where
  "gateway_response cfg w request =
     (if use_llm cfg \<and> llm_client cfg then
        (case finalize_candidates (json_loads w) (gateway w) (max_products_of cfg request) of
           Returns (Some l) \<Rightarrow> Some l
         | _ \<Rightarrow> None)
      else None)"





definition content_of :: "World \<Rightarrow> json option" where
  "content_of w =
     (case gateway w of
        HttpResponse status_code (Some response) \<Rightarrow> llm_content response
      | _ \<Rightarrow> None)"


definition decoded :: "World \<Rightarrow> json option" where
  "decoded w = (case content_of w of Some (JStr s) \<Rightarrow> json_loads w s | _ \<Rightarrow> None)"




text \<open>The gateway answered with status 200.\<close>

definition status_200 :: "World \<Rightarrow> bool" where
  "status_200 w = (case gateway w of HttpResponse status_code body \<Rightarrow> status_code = 200 | _ \<Rightarrow> False)"

text \<open>The deterministic result of a request.\<close>

definition deterministic_result :: "Config \<Rightarrow> World \<Rightarrow> Product list \<Rightarrow> CurateRequest \<Rightarrow> CurateResponse" where
  "deterministic_result cfg w products request =
     base_response w (profile request) (candidates_of cfg products request) (max_products_of cfg request)"


text \<open>The identifier list of a result and its record list agree, position by position.\<close>

definition aligned :: "string list \<Rightarrow> Product list \<Rightarrow> bool" where
  "aligned ids ps = (ids = map sku_or_id ps)"

definition all_aligned :: "CurateResponse \<Rightarrow> bool" where
  "all_aligned r =
     (aligned (curatedProductIds r) (curatedProducts r)
      \<and> aligned (platinumSupplierProducts r) (platinumProducts r)
      \<and> aligned (bundledPacks r) (bundledProducts r)
      \<and> aligned (localFavorites r) (localFavoriteProducts r))"

definition known_ids :: "Product list \<Rightarrow> string list \<Rightarrow> bool" where
  "known_ids candidates ids = list_all (\<lambda>k. k \<in> sku_or_id ` set candidates) ids"

section \<open>Concrete inputs\<close>

definition sample_product :: Product where
  "sample_product =
     \<lparr>id_p = ''0'', sku = None, name = ''n'', product_web_description = None,
      supplier = None, brand = None, country = None, region = None,
      visibility = Some ''4'',
      category_level_1 = None, category_level_2 = None, category_level_3 = None,
      category_level_4 = None,
      sold_at_cairns = None, sold_at_brisbane = None, sold_at_adelaide = None,
      sold_at_melbourne = None, sold_at_sydney = None,
      tags = None, origin = None, supplier_tier = None, is_bundle = False,
      locality_score = 0, category_fitness = 0, supplier_boost = 0, composite_score = 0\<rparr>"

definition sample_profile :: Profile where
  "sample_profile =
     \<lparr>tier = None, location = None, venueType = ''bar'', cuisineStyle = None,
      budgetBand = None, flat_city = None, flat_state = None, flat_country = None,
      flat_address = None, flat_postcode = None\<rparr>"

definition sample_request :: CurateRequest where
  "sample_request = \<lparr>profile = sample_profile, maxProducts = Some 10\<rparr>"

text \<open>Four products of one brand and one category, as ranked: scores descending.\<close>

definition acme :: "string \<Rightarrow> rat \<Rightarrow> Product" where
  "acme i s = sample_product\<lparr>id_p := i, brand := Some ''Acme'',
                category_level_1 := Some ''Spirits'', composite_score := s\<rparr>"

definition acme_ranked :: "Product list" where
  "acme_ranked = [acme ''S1'' (9/10), acme ''S2'' (8/10), acme ''S3'' (7/10), acme ''S4'' (6/10)]"

text \<open>Two products that differ in their supplier name only.\<close>

definition from_alpha :: Product where
  "from_alpha = sample_product\<lparr>id_p := ''1'', supplier := Some ''Alpha''\<rparr>"

definition from_beta :: Product where
  "from_beta = sample_product\<lparr>id_p := ''2'', supplier := Some ''Beta''\<rparr>"

definition hidden_product :: Product where
  "hidden_product = sample_product\<lparr>id_p := ''3'', visibility := Some ''1''\<rparr>"

definition with_sku :: Product where
  "with_sku = sample_product\<lparr>id_p := ''4'', sku := Some ''A1''\<rparr>"

definition config_off :: Config where
  "config_off = \<lparr>default_max_products = 100, top_k_preselect = 250,
                  use_llm = False, llm_client = False\<rparr>"

definition config_on :: Config where
  "config_on = \<lparr>default_max_products = 100, top_k_preselect = 250,
                 use_llm = True, llm_client = True\<rparr>"

text \<open>An answer in the shape of the chat-completions API around a content string.\<close>

definition envelope :: "string \<Rightarrow> json" where
  "envelope s = JObj [(''choices'', JList [JObj [(''message'', JObj [(''content'', JStr s)])]])]"

definition answer :: "json list \<Rightarrow> json \<Rightarrow> json" where
  "answer ids c = JObj [(''curatedProductIds'', JList ids), (''reasoning'', JList [JStr ''r'']),
                        (''confidence'', c)]"

definition sample_loads :: "string \<Rightarrow> json option" where
  "sample_loads s =
     (if s = ''ghost'' then Some (answer [JStr ''A1'', JStr ''GHOST''] (JNum (9/10)))
      else if s = ''high'' then Some (answer [JStr ''A1''] (JNum (17/10)))
      else if s = ''text'' then Some (answer [JStr ''A1''] (JStr ''0.9''))
      else None)"

definition world_with :: "gateway_outcome \<Rightarrow> World" where
  "world_with g = \<lparr>json_loads = sample_loads, format_percent = (\<lambda>r. ''?''), utcnow = 0,
                    gateway = g\<rparr>"

text \<open>Three gateway answers, and the parsed form of two of them.\<close>

definition ghost_world :: World where
  "ghost_world = world_with (HttpResponse 200 (Some (envelope ''ghost'')))"


definition high_world :: World where
  "high_world = world_with (HttpResponse 200 (Some (envelope ''high'')))"

definition ghost_answer :: LLMResponse where
  "ghost_answer = \<lparr>llm_curatedProductIds = [''A1'', ''GHOST''], llm_reasoning = [''r''],
     llm_confidence = 9/10, llm_platinumSupplierProducts = [], llm_bundledPacks = [],
     llm_localFavorites = [], llm_businessInsights = [], llm_nextSteps = []\<rparr>"

definition high_answer :: LLMResponse where
  "high_answer = \<lparr>llm_curatedProductIds = [''A1''], llm_reasoning = [''r''],
     llm_confidence = 1, llm_platinumSupplierProducts = [], llm_bundledPacks = [],
     llm_localFavorites = [], llm_businessInsights = [], llm_nextSteps = []\<rparr>"

section \<open>The candidate selector\<close>

text \<open>
  \<open>seen_combinations\<close> is a set, so it holds a pair at most once and the count of the
  members equal to a given pair is 0 or 1, whatever has been accepted before.
\<close>

lemma count_le_one: "card (Set.filter (\<lambda>(b, c). b = x \<and> c = y) S) \<le> 1"
proof -
  have "Set.filter (\<lambda>(b, c). b = x \<and> c = y) S \<subseteq> {(x, y)}" by auto
  then have "card (Set.filter (\<lambda>(b, c). b = x \<and> c = y) S) \<le> card {(x, y)}"
    by (intro card_mono) auto
  then show ?thesis by simp
qed

lemma select_loop_step:
  assumes "\<not> k \<le> int (length c)"
  shows "select_loop k (p # ps) c s =
         select_loop k ps (c @ [p])
           (insert (lower (or_else (brand p) ''unknown''),
                    lower (or_else (category_level_1 p) ''unknown'')) s)"
proof -
  have "card (Set.filter (\<lambda>(b, ca). b = lower (or_else (brand p) ''unknown'')
           \<and> ca = lower (or_else (category_level_1 p) ''unknown'')) s) < 3"
    using count_le_one [of "lower (or_else (brand p) ''unknown'')"
                           "lower (or_else (category_level_1 p) ''unknown'')" s]
    by linarith
  with assms show ?thesis
    by (simp only: select_loop.simps Let_def if_False if_True)
qed

lemma select_loop_take:
  "select_loop k xs c s =
     (if k \<le> int (length c) then c else c @ take (nat (k - int (length c))) xs)"
proof (induction xs arbitrary: c s)
  case Nil
  then show ?case by simp
next
  case (Cons p ps)
  show ?case
  proof (cases "k \<le> int (length c)")
    case True
    then show ?thesis by simp
  next
    case False
    then have n: "nat (k - int (length c)) = Suc (nat (k - int (length (c @ [p]))))"
      by simp
    have "select_loop k (p # ps) c s =
          select_loop k ps (c @ [p])
            (insert (lower (or_else (brand p) ''unknown''),
                     lower (or_else (category_level_1 p) ''unknown'')) s)"
      using False by (rule select_loop_step)
    also have "\<dots> = (if k \<le> int (length (c @ [p])) then c @ [p]
                      else (c @ [p]) @ take (nat (k - int (length (c @ [p])))) ps)"
      by (rule Cons.IH)
    also have "\<dots> = c @ take (nat (k - int (length c))) (p # ps)"
      unfolding n by simp
    finally show ?thesis using False by simp
  qed
qed

text \<open>Hence the selector is the ranked list cut at \<open>top_k\<close>, with no diversity cap.\<close>

lemma select_candidates_take: "select_candidates xs k = take (nat k) xs"
  by (simp add: select_candidates_def select_loop_take)

text \<open>
  C2.  The claim: a product is accepted only if fewer than 3 accepted candidates share
  its (brand, category) pair, so of four ranked products of brand Acme and category
  Spirits, with topK = 10, the first three are selected and the fourth is left out.
  The code selects all four: the fourth is accepted although three accepted
  candidates share its pair.
\<close>

theorem select_candidates_accepts_fourth:
  "select_candidates acme_ranked 10 = acme_ranked
   \<and> length (select_candidates acme_ranked 10) = 4
   \<and> acme ''S4'' (6/10) \<in> set (select_candidates acme_ranked 10)"
  by (simp add: select_candidates_take acme_ranked_def)

section \<open>The scoring engine\<close>

subsection \<open>What one pass of the loop writes\<close>

lemma extract_category_ignores_scores [simp]:
  "extract_category (p\<lparr>locality_score := x\<rparr>) = extract_category p"
  by (simp add: extract_category_def del: classify_levels.simps)

lemma fitness_ignores_scores [simp]:
  "calculate_category_fitness (p\<lparr>locality_score := x\<rparr>) pr = calculate_category_fitness p pr"
  by (simp add: calculate_category_fitness_def)

lemma boost_ignores_scores [simp]:
  "calculate_supplier_boost (p\<lparr>locality_score := x, category_fitness := y\<rparr>)
     = calculate_supplier_boost p"
  by (simp add: calculate_supplier_boost_def)

lemma score_one_fields:
  "locality_score (score_one pr p) = calculate_locality_score p pr"
  "category_fitness (score_one pr p) = calculate_category_fitness p pr"
  "supplier_boost (score_one pr p) = calculate_supplier_boost p"
  "is_bundle (score_one pr p) = is_bundle p"
  "visibility (score_one pr p) = visibility p"
  by (simp_all add: score_one_def Let_def)


text \<open>Only the four computed fields change.\<close>

lemma unscored_score_one: "unscored (score_one pr p) = unscored p"
  by (simp add: score_one_def Let_def unscored_def)

lemma visible_score_one: "visible (score_one pr p) = visible p"
  by (simp add: visible_def score_one_fields)

subsection \<open>The sort\<close>

lemma mset_sorted_reverse: "mset (sorted_reverse k xs) = mset xs"
  by (simp add: sorted_reverse_def)

lemma set_sorted_reverse: "set (sorted_reverse k xs) = set xs"
  by (simp add: sorted_reverse_def)

text \<open>The whole key tuple descends along the result, its third component included.\<close>

lemma sorted_reverse_descending: "sorted (rev (map k (sorted_reverse k xs)))"
  by (simp add: sorted_reverse_def rev_map)

lemma fst_score_products:
  "fst (score_products ps pr)
     = sorted_reverse sort_key_of (map (score_one pr) (filter visible ps))"
  by (simp add: score_products_def Let_def)

lemma snd_score_products: "snd (score_products ps pr) = catalogue_after ps pr"
  by (simp add: score_products_def Let_def)

lemma visible_samples: "visible sample_product" "\<not> visible hidden_product"
  by (simp_all add: visible_def sample_product_def hidden_product_def)

subsection \<open>Visibility\<close>

text \<open>
  C7.  For every list of products and every profile, the scored output holds no
  product whose visibility code is not "4", and it is a permutation of the visible
  products of the input: as a multiset it is the visible products, each with its
  scores computed, and with the computed fields left aside it is the visible products
  themselves.
\<close>

theorem score_products_visible_permutation:
  "mset (fst (score_products ps pr)) = mset (map (score_one pr) (filter visible ps))
   \<and> mset (map unscored (fst (score_products ps pr))) = mset (map unscored (filter visible ps))
   \<and> (\<forall>p \<in> set (fst (score_products ps pr)). visibility p = Some ''4'')"
proof -
  let ?out = "fst (score_products ps pr)"
  have m: "mset ?out = mset (map (score_one pr) (filter visible ps))"
    by (simp add: fst_score_products mset_sorted_reverse)
  have e: "map unscored (map (score_one pr) xs) = map unscored xs" for xs
    by (simp add: unscored_score_one)
  have "mset (map unscored ?out) = image_mset unscored (mset ?out)" by simp
  also have "\<dots> = image_mset unscored (mset (map (score_one pr) (filter visible ps)))"
    by (simp only: m)
  also have "\<dots> = mset (map unscored (map (score_one pr) (filter visible ps)))"
    by (simp only: mset_map)
  also have "\<dots> = mset (map unscored (filter visible ps))"
    by (simp only: e)
  finally have u: "mset (map unscored ?out) = mset (map unscored (filter visible ps))" .
  have "set ?out = score_one pr ` set (filter visible ps)"
    by (simp add: fst_score_products set_sorted_reverse)
  then have v: "\<forall>p \<in> set ?out. visibility p = Some ''4''"
    by (auto simp: score_one_fields visible_def)
  from m u v show ?thesis by blast
qed

theorem score_products_visible_permutation_witness:
  "score_one sample_profile sample_product
     \<in> set (fst (score_products [sample_product, hidden_product] sample_profile))
   \<and> visibility (score_one sample_profile sample_product) = Some ''4''
   \<and> mset (map unscored (fst (score_products [sample_product, hidden_product] sample_profile)))
       = {#unscored sample_product#}"
proof -
  have mem: "score_one sample_profile sample_product
     \<in> set (fst (score_products [sample_product, hidden_product] sample_profile))"
    by (simp add: fst_score_products set_sorted_reverse visible_samples)
  from score_products_visible_permutation [of "[sample_product, hidden_product]" sample_profile]
    mem
  show ?thesis
    by (simp add: visible_samples unscored_score_one)
qed

subsection \<open>The composite score\<close>



subsection \<open>The order of the output\<close>

text \<open>
  C5.  The claim: the scored output is sorted by composite score descending, then by
  supplier-tier weight descending, then by supplier name ascending.  The code sorts
  the whole key tuple with \<open>reverse=True\<close>, so the supplier name descends as well: of
  two visible products with equal composite score and equal tier weight, the one of
  supplier "Beta" comes before the one of supplier "Alpha", whichever comes first in
  the input.
\<close>

theorem score_products_supplier_name_descends:
  "map supplier (fst (score_products [from_alpha, from_beta] sample_profile))
     = [Some ''Beta'', Some ''Alpha'']
   \<and> map supplier (fst (score_products [from_beta, from_alpha] sample_profile))
     = [Some ''Beta'', Some ''Alpha'']
   \<and> map sort_key_of (fst (score_products [from_alpha, from_beta] sample_profile))
     = [(19/50, 1/2, ''Beta''), (19/50, 1/2, ''Alpha'')]"
  by code_simp

section \<open>The gateway and the orchestrator\<close>

lemma sku_index_fold_Some:
  "fold (\<lambda>p d. d(sku_or_id p \<mapsto> p)) cands m k = Some p
   \<Longrightarrow> (p \<in> set cands \<and> sku_or_id p = k) \<or> m k = Some p"
  by (induction cands arbitrary: m) (fastforce split: if_splits)+

lemma sku_index_fold_dom:
  "dom (fold (\<lambda>p d. d(sku_or_id p \<mapsto> p)) cands m) = dom m \<union> sku_or_id ` set cands"
  by (induction cands arbitrary: m) auto

lemma sku_index_Some: "sku_index cands k = Some p \<Longrightarrow> p \<in> set cands \<and> sku_or_id p = k"
  using sku_index_fold_Some [of cands Map.empty k p] by (simp add: sku_index_def)

lemma sku_index_dom: "dom (sku_index cands) = sku_or_id ` set cands"
  by (simp add: sku_index_def sku_index_fold_dom)

lemma sku_index_None: "sku_index cands k = None \<longleftrightarrow> k \<notin> sku_or_id ` set cands"
proof -
  have "sku_index cands k = None \<longleftrightarrow> k \<notin> dom (sku_index cands)"
    by (simp add: domIff)
  then show ?thesis by (simp only: sku_index_dom)
qed

lemma map_skus_Nil [simp]: "map_skus_to_products [] cands = []"
  by (simp add: map_skus_to_products_def)

lemma map_skus_Cons:
  "map_skus_to_products (k # ks) cands =
     (case sku_index cands k of Some p \<Rightarrow> [p] | None \<Rightarrow> []) @ map_skus_to_products ks cands"
  by (simp add: map_skus_to_products_def Let_def)

lemma map_skus_keys:
  "map sku_or_id (map_skus_to_products skus cands) = filter (\<lambda>k. k \<in> sku_or_id ` set cands) skus"
proof (induction skus)
  case Nil
  show ?case by simp
next
  case (Cons k ks)
  show ?case
  proof (cases "sku_index cands k")
    case None
    then have "k \<notin> sku_or_id ` set cands" by (simp add: sku_index_None)
    with None Cons show ?thesis by (simp add: map_skus_Cons)
  next
    case (Some p)
    then have "sku_or_id p = k" "p \<in> set cands" by (auto dest: sku_index_Some)
    then have "k \<in> sku_or_id ` set cands" by blast
    with Some Cons \<open>sku_or_id p = k\<close> show ?thesis by (simp add: map_skus_Cons)
  qed
qed

lemma sku_index_Some_sym: "Some p = sku_index cands k \<Longrightarrow> p \<in> set cands \<and> sku_or_id p = k"
  using sku_index_Some [of cands k p] by simp

lemma sku_index_Some_key: "sku_index cands k = Some p \<Longrightarrow> k \<in> sku_or_id ` set cands"
  using sku_index_Some [of cands k p] by blast

lemma map_skus_subset: "set (map_skus_to_products skus cands) \<subseteq> set cands"
  by (induction skus)
     (auto simp: map_skus_Cons split: option.splits dest: sku_index_Some sku_index_Some_sym)

lemma map_skus_lookup:
  "map_skus_to_products skus cands =
     map (\<lambda>k. the (sku_index cands k)) (filter (\<lambda>k. k \<in> sku_or_id ` set cands) skus)"
  by (induction skus)
     (auto simp: map_skus_Cons sku_index_None split: option.splits dest: sku_index_Some_key)

lemma map_skus_known:
  "known_ids cands skus \<Longrightarrow> map sku_or_id (map_skus_to_products skus cands) = skus"
  by (simp add: map_skus_keys known_ids_def list_all_iff)

lemma py_take_map: "py_take n (map f xs) = map f (py_take n xs)"
  by (simp add: py_take_def take_map)


lemma llm_content_falsy: "\<not> json_truthy response \<Longrightarrow> llm_content response = None"
  by (cases response) (auto simp: llm_content_def)

lemma parse_llm_response_falsy:
  "\<not> json_truthy response \<Longrightarrow> parse_llm_response loads response m = None"
  by (simp add: parse_llm_response_def llm_content_falsy)

lemma finalize_char:
  "finalize_candidates loads g m =
     (case g of
        CallRaises \<Rightarrow> Raises
      | PostRaises \<Rightarrow> Returns None
      | HttpResponse c body \<Rightarrow>
          Returns (if c = 200 then
                     (case body of None \<Rightarrow> None
                      | Some response \<Rightarrow> parse_llm_response loads response m)
                   else None))"
  by (cases g) (auto simp: finalize_candidates_def parse_llm_response_falsy split: option.splits)

lemma gateway_response_char:
  "gateway_response cfg w request =
     (if use_llm cfg \<and> llm_client cfg \<and> status_200 w then
        (case decoded w of
           Some data \<Rightarrow> validate_data data (max_products_of cfg request)
         | None \<Rightarrow> None)
      else None)"
  by (cases "gateway w")
     (auto simp: gateway_response_def finalize_char status_200_def decoded_def content_of_def
        parse_llm_response_def split: option.splits json.splits)

lemma curate_products_unfold:
  assumes "products \<noteq> []"
  shows "curate_products cfg w products request =
     (make_response
        (case gateway_response cfg w request of
           None \<Rightarrow> deterministic_result cfg w products request
         | Some l \<Rightarrow> merge_llm_response (deterministic_result cfg w products request) l
                      (candidates_of cfg products request) (max_products_of cfg request)),
      catalogue_after products (profile request))"
  using assms
  by (simp add: curate_products_def gateway_response_def deterministic_result_def
        candidates_of_def score_products_def Let_def split: call.splits option.splits)




lemma make_llm_response_Some:
  "make_llm_response c r cf pl bu lo bi ns = Some l \<Longrightarrow>
     as_str_list c = Some (llm_curatedProductIds l) \<and> as_str_list r = Some (llm_reasoning l)
     \<and> llm_confidence l = cf
     \<and> as_str_list pl = Some (llm_platinumSupplierProducts l)
     \<and> as_str_list bu = Some (llm_bundledPacks l)
     \<and> as_str_list lo = Some (llm_localFavorites l)
     \<and> as_str_list bi = Some (llm_businessInsights l)
     \<and> as_str_list ns = Some (llm_nextSteps l)"
  by (auto simp: make_llm_response_def split: option.splits)



lemma validate_not_object: "\<not> is_object data \<Longrightarrow> validate_data data m = None"
  by (simp add: validate_data_def)

lemma not_object_no_field: "\<not> is_object data \<Longrightarrow> \<not> has_field data k"
  by (cases data) (auto simp: has_field_def)




lemma validate_data_Some:
  assumes "validate_data data m = Some l"
  shows "llm_confidence l = clamp_confidence (float_of (field data ''confidence''))"
    and "as_str_list (JList (py_take m (items (field data ''curatedProductIds''))))
           = Some (llm_curatedProductIds l)"
proof -
  from assms have
    "make_llm_response (JList (py_take m (items (field data ''curatedProductIds''))))
       (field data ''reasoning'') (clamp_confidence (float_of (field data ''confidence'')))
       (field_or_empty data ''platinumSupplierProducts'') (field_or_empty data ''bundledPacks'')
       (field_or_empty data ''localFavorites'') (field_or_empty data ''businessInsights'')
       (field_or_empty data ''nextSteps'') = Some l"
    by (simp add: validate_data_def Let_def split: if_splits)
  from make_llm_response_Some [OF this]
  show "llm_confidence l = clamp_confidence (float_of (field data ''confidence''))"
    and "as_str_list (JList (py_take m (items (field data ''curatedProductIds''))))
           = Some (llm_curatedProductIds l)"
    by simp_all
qed


lemma clamp_confidence_range: "0 \<le> clamp_confidence c \<and> clamp_confidence c \<le> 1"
  by (simp add: clamp_confidence_def)


lemma all_some_length: "all_some xs = Some ys \<Longrightarrow> length ys = length xs"
  by (induction xs arbitrary: ys) (auto split: option.splits)

lemma as_str_list_length: "as_str_list (JList xs) = Some ys \<Longrightarrow> length ys = length xs"
  by (simp add: all_some_length [of "map as_str xs" ys])


lemma base_confidence: "confidence (base_response w pr cands m) = 8/10"
  by (simp add: base_response_def Let_def)

lemma make_response_base: "make_response (base_response w pr cands m) = Inr (base_response w pr cands m)"
  by (simp add: make_response_def base_confidence)

lemma merge_confidence: "confidence (merge_llm_response b l cands m) = llm_confidence l"
  by (simp add: merge_llm_response_def Let_def)

lemma gateway_response_confidence:
  assumes "gateway_response cfg w request = Some l"
  shows "0 \<le> llm_confidence l \<and> llm_confidence l \<le> 1"
proof -
  from assms obtain data where "validate_data data (max_products_of cfg request) = Some l"
    by (auto simp: gateway_response_char split: if_splits option.splits)
  then show ?thesis
    using validate_data_Some(1) clamp_confidence_range by simp
qed

lemma gateway_response_length:
  assumes "gateway_response cfg w request = Some l" "0 \<le> max_products_of cfg request"
  shows "length (llm_curatedProductIds l) \<le> nat (max_products_of cfg request)"
proof -
  from assms obtain data where "validate_data data (max_products_of cfg request) = Some l"
    by (auto simp: gateway_response_char split: if_splits option.splits)
  from validate_data_Some(2) [OF this] as_str_list_length
  have "length (llm_curatedProductIds l)
          = length (py_take (max_products_of cfg request) (items (field data ''curatedProductIds'')))"
    by blast
  with assms(2) show ?thesis by (simp add: py_take_def)
qed

lemma curate_fallback:
  assumes "products \<noteq> []" "gateway_response cfg w request = None"
  shows "curate_products cfg w products request =
           (Inr (deterministic_result cfg w products request),
            catalogue_after products (profile request))"
  using assms
  by (simp add: curate_products_unfold deterministic_result_def make_response_base)

lemma curate_merged:
  assumes "products \<noteq> []" "gateway_response cfg w request = Some l"
  shows "curate_products cfg w products request =
           (Inr (merge_llm_response (deterministic_result cfg w products request) l
                   (candidates_of cfg products request) (max_products_of cfg request)),
            catalogue_after products (profile request))"
  using assms gateway_response_confidence [OF assms(2)]
  by (simp add: curate_products_unfold make_response_def merge_confidence)







lemma base_aligned: "all_aligned (base_response w pr cands m)"
  by (simp add: all_aligned_def aligned_def base_response_def Let_def)

lemma merge_fields:
  "curatedProductIds (merge_llm_response b l cands m) = py_take m (llm_curatedProductIds l)"
  "curatedProducts (merge_llm_response b l cands m)
     = py_take m (map_skus_to_products (llm_curatedProductIds l) cands)"
  "platinumSupplierProducts (merge_llm_response b l cands m) = llm_platinumSupplierProducts l"
  "platinumProducts (merge_llm_response b l cands m)
     = map_skus_to_products (llm_platinumSupplierProducts l) cands"
  "bundledPacks (merge_llm_response b l cands m) = llm_bundledPacks l"
  "bundledProducts (merge_llm_response b l cands m) = map_skus_to_products (llm_bundledPacks l) cands"
  "localFavorites (merge_llm_response b l cands m) = llm_localFavorites l"
  "localFavoriteProducts (merge_llm_response b l cands m)
     = map_skus_to_products (llm_localFavorites l) cands"
  "reasoning (merge_llm_response b l cands m) = llm_reasoning l"
  by (simp_all add: merge_llm_response_def Let_def)

lemma aligned_known:
  "known_ids cands ids \<Longrightarrow> aligned ids (map_skus_to_products ids cands)"
  by (simp add: aligned_def map_skus_known)

lemma aligned_known_take:
  "known_ids cands ids \<Longrightarrow> aligned (py_take m ids) (py_take m (map_skus_to_products ids cands))"
  by (simp add: aligned_def map_skus_known py_take_map [symmetric])




lemma py_take_all: "0 \<le> n \<Longrightarrow> length xs \<le> nat n \<Longrightarrow> py_take n xs = xs"
  by (simp add: py_take_def)

lemma map_skus_length: "length (map_skus_to_products skus cands) \<le> length skus"
proof -
  have "length (map_skus_to_products skus cands)
          = length (map sku_or_id (map_skus_to_products skus cands))" by simp
  also have "\<dots> \<le> length skus" by (simp only: map_skus_keys length_filter_le)
  finally show ?thesis .
qed

text \<open>
  C4.  On gateway success (the gateway's answer \<open>l\<close> is merged; \<open>maxProducts\<close> is not
  negative), each identifier list of the response is the gateway's list, identifiers
  unknown among the candidates included, while each full-record list holds, in the
  gateway's order, the candidates' records of exactly the identifiers that are the
  sku-or-id of a candidate: an unknown identifier has no record.
\<close>

theorem unknown_ids_dropped_from_records_only:
  assumes "products \<noteq> []" "gateway_response cfg w request = Some l"
    and "0 \<le> max_products_of cfg request"
  shows "\<exists>r. fst (curate_products cfg w products request) = Inr r
     \<and> curatedProductIds r = llm_curatedProductIds l
     \<and> platinumSupplierProducts r = llm_platinumSupplierProducts l
     \<and> bundledPacks r = llm_bundledPacks l
     \<and> localFavorites r = llm_localFavorites l
     \<and> map sku_or_id (curatedProducts r)
         = filter (\<lambda>k. k \<in> sku_or_id ` set (candidates_of cfg products request))
             (llm_curatedProductIds l)
     \<and> map sku_or_id (platinumProducts r)
         = filter (\<lambda>k. k \<in> sku_or_id ` set (candidates_of cfg products request))
             (llm_platinumSupplierProducts l)
     \<and> map sku_or_id (bundledProducts r)
         = filter (\<lambda>k. k \<in> sku_or_id ` set (candidates_of cfg products request))
             (llm_bundledPacks l)
     \<and> map sku_or_id (localFavoriteProducts r)
         = filter (\<lambda>k. k \<in> sku_or_id ` set (candidates_of cfg products request))
             (llm_localFavorites l)
     \<and> set (curatedProducts r) \<subseteq> set (candidates_of cfg products request)
     \<and> set (platinumProducts r) \<subseteq> set (candidates_of cfg products request)
     \<and> set (bundledProducts r) \<subseteq> set (candidates_of cfg products request)
     \<and> set (localFavoriteProducts r) \<subseteq> set (candidates_of cfg products request)"
proof -
  let ?m = "max_products_of cfg request"
  let ?c = "candidates_of cfg products request"
  let ?r = "merge_llm_response (deterministic_result cfg w products request) l ?c ?m"
  have len: "length (llm_curatedProductIds l) \<le> nat ?m"
    using gateway_response_length [OF assms(2,3)] .
  then have len': "length (map_skus_to_products (llm_curatedProductIds l) ?c) \<le> nat ?m"
    using map_skus_length [of "llm_curatedProductIds l" ?c] by linarith
  have i: "curatedProductIds ?r = llm_curatedProductIds l"
    by (simp add: merge_fields py_take_all [OF assms(3) len])
  have p: "curatedProducts ?r = map_skus_to_products (llm_curatedProductIds l) ?c"
    by (simp add: merge_fields py_take_all [OF assms(3) len'])
  have "fst (curate_products cfg w products request) = Inr ?r"
    by (simp add: curate_merged [OF assms(1,2)])
  moreover have "curatedProductIds ?r = llm_curatedProductIds l
     \<and> platinumSupplierProducts ?r = llm_platinumSupplierProducts l
     \<and> bundledPacks ?r = llm_bundledPacks l
     \<and> localFavorites ?r = llm_localFavorites l"
    using i by (simp add: merge_fields)
  moreover have "map sku_or_id (curatedProducts ?r)
         = filter (\<lambda>k. k \<in> sku_or_id ` set ?c) (llm_curatedProductIds l)
     \<and> set (curatedProducts ?r) \<subseteq> set ?c"
    by (simp only: p map_skus_keys map_skus_subset)
  moreover have "map sku_or_id (platinumProducts ?r)
         = filter (\<lambda>k. k \<in> sku_or_id ` set ?c) (llm_platinumSupplierProducts l)
     \<and> set (platinumProducts ?r) \<subseteq> set ?c"
    by (simp only: merge_fields map_skus_keys map_skus_subset)
  moreover have "map sku_or_id (bundledProducts ?r)
         = filter (\<lambda>k. k \<in> sku_or_id ` set ?c) (llm_bundledPacks l)
     \<and> set (bundledProducts ?r) \<subseteq> set ?c"
    by (simp only: merge_fields map_skus_keys map_skus_subset)
  moreover have "map sku_or_id (localFavoriteProducts ?r)
         = filter (\<lambda>k. k \<in> sku_or_id ` set ?c) (llm_localFavorites l)
     \<and> set (localFavoriteProducts ?r) \<subseteq> set ?c"
    by (simp only: merge_fields map_skus_keys map_skus_subset)
  ultimately show ?thesis by blast
qed


lemma ghost_facts:
  "[with_sku] \<noteq> []"
  "gateway_response config_on ghost_world sample_request = Some ghost_answer"
  "0 \<le> max_products_of config_on sample_request"
  by code_simp+

lemma sample_candidate_keys:
  "map sku_or_id (candidates_of config_on [with_sku] sample_request) = [''A1'']"
  by code_simp

lemma ghost_keys: "sku_or_id ` set (candidates_of config_on [with_sku] sample_request) = {''A1''}"
proof -
  have "sku_or_id ` set (candidates_of config_on [with_sku] sample_request)
          = set (map sku_or_id (candidates_of config_on [with_sku] sample_request))"
    by (rule set_map [symmetric])
  also have "\<dots> = {''A1''}" by (simp only: sample_candidate_keys) simp
  finally show ?thesis .
qed


lemma ghost_filter:
  "filter (\<lambda>k. k \<in> sku_or_id ` set (candidates_of config_on [with_sku] sample_request))
     (llm_curatedProductIds ghost_answer) = [''A1'']"
  unfolding ghost_keys by (simp add: ghost_answer_def)

theorem unknown_ids_dropped_from_records_only_witness:
  "[with_sku] \<noteq> []
   \<and> gateway_response config_on ghost_world sample_request = Some ghost_answer
   \<and> 0 \<le> max_products_of config_on sample_request
   \<and> (\<exists>r. fst (curate_products config_on ghost_world [with_sku] sample_request) = Inr r
          \<and> curatedProductIds r = [''A1'', ''GHOST'']
          \<and> map sku_or_id (curatedProducts r) = [''A1''])"
proof -
  from unknown_ids_dropped_from_records_only [OF ghost_facts] obtain r where
    a: "fst (curate_products config_on ghost_world [with_sku] sample_request) = Inr r"
    and b: "curatedProductIds r = llm_curatedProductIds ghost_answer"
    and c: "map sku_or_id (curatedProducts r)
       = filter (\<lambda>k. k \<in> sku_or_id ` set (candidates_of config_on [with_sku] sample_request))
           (llm_curatedProductIds ghost_answer)"
    by blast
  from b have b': "curatedProductIds r = [''A1'', ''GHOST'']" by (simp add: ghost_answer_def)
  from c have c': "map sku_or_id (curatedProducts r) = [''A1'']" by (simp only: ghost_filter)
  from a b' c' have e: "\<exists>r. fst (curate_products config_on ghost_world [with_sku] sample_request) = Inr r
          \<and> curatedProductIds r = [''A1'', ''GHOST'']
          \<and> map sku_or_id (curatedProducts r) = [''A1'']"
    by (intro exI [of _ r] conjI)
  from ghost_facts e show ?thesis by (intro conjI)
qed


text \<open>
  C3.  The claim: in every response, deterministic or gateway-derived, each identifier
  list and its full-record list have equal length and are aligned.  It fails for a
  gateway-derived response: with the one candidate A1 and a gateway answer naming A1 and
  GHOST, the identifier list has two entries and the record list one.
\<close>

theorem gateway_result_lists_differ_in_length:
  "(case fst (curate_products config_on ghost_world [with_sku] sample_request) of
      Inr r \<Rightarrow> curatedProductIds r = [''A1'', ''GHOST'']
              \<and> map sku_or_id (curatedProducts r) = [''A1'']
              \<and> length (curatedProductIds r) \<noteq> length (curatedProducts r)
    | Inl e \<Rightarrow> False)"
  by code_simp

text \<open>
  C3, amended.  In every deterministic response the four identifier lists are aligned
  with their record lists; in a gateway-derived response a pair is aligned (equal
  length, same order) whenever every identifier of the gateway's list is the sku-or-id
  of a candidate.
\<close>

theorem result_lists_aligned_when_ids_known:
  assumes "products \<noteq> []"
  shows "\<exists>r. fst (curate_products cfg w products request) = Inr r
     \<and> (case gateway_response cfg w request of
          None \<Rightarrow> all_aligned r
        | Some l \<Rightarrow>
            (known_ids (candidates_of cfg products request) (llm_curatedProductIds l)
               \<longrightarrow> aligned (curatedProductIds r) (curatedProducts r))
          \<and> (known_ids (candidates_of cfg products request) (llm_platinumSupplierProducts l)
               \<longrightarrow> aligned (platinumSupplierProducts r) (platinumProducts r))
          \<and> (known_ids (candidates_of cfg products request) (llm_bundledPacks l)
               \<longrightarrow> aligned (bundledPacks r) (bundledProducts r))
          \<and> (known_ids (candidates_of cfg products request) (llm_localFavorites l)
               \<longrightarrow> aligned (localFavorites r) (localFavoriteProducts r)))"
proof (cases "gateway_response cfg w request")
  case None
  from curate_fallback [OF assms None] show ?thesis
    by (simp add: None deterministic_result_def base_aligned)
next
  case (Some l)
  from curate_merged [OF assms Some] show ?thesis
    by (simp add: Some merge_fields aligned_known aligned_known_take)
qed


lemma high_response: "gateway_response config_on high_world sample_request = Some high_answer"
  by code_simp

lemma high_known:
  "known_ids (candidates_of config_on [with_sku] sample_request) (llm_curatedProductIds high_answer)"
proof -
  have "sku_or_id ` set (candidates_of config_on [with_sku] sample_request)
          = set (map sku_or_id (candidates_of config_on [with_sku] sample_request))"
    by (rule set_map [symmetric])
  also have "\<dots> = {''A1''}" by (simp only: sample_candidate_keys) simp
  finally show ?thesis by (simp add: known_ids_def high_answer_def)
qed

theorem result_lists_aligned_when_ids_known_witness:
  "[with_sku] \<noteq> []
   \<and> known_ids (candidates_of config_on [with_sku] sample_request)
        (llm_curatedProductIds high_answer)
   \<and> (\<exists>r. fst (curate_products config_on high_world [with_sku] sample_request) = Inr r
          \<and> aligned (curatedProductIds r) (curatedProducts r))"
proof -
  have n: "[with_sku] \<noteq> []" by simp
  from result_lists_aligned_when_ids_known [OF n, of config_on high_world sample_request] obtain r where
    a: "fst (curate_products config_on high_world [with_sku] sample_request) = Inr r"
    and b: "known_ids (candidates_of config_on [with_sku] sample_request)
              (llm_curatedProductIds high_answer)
            \<longrightarrow> aligned (curatedProductIds r) (curatedProducts r)"
    by (auto simp only: high_response option.case)
  from b high_known have c: "aligned (curatedProductIds r) (curatedProducts r)" by (rule mp)
  from a c have e: "\<exists>r. fst (curate_products config_on high_world [with_sku] sample_request) = Inr r
          \<and> aligned (curatedProductIds r) (curatedProducts r)"
    by (intro exI [of _ r] conjI)
  from n high_known e show ?thesis by (intro conjI)
qed

text \<open>
  C9.  The claim: scoring a request does not change the computed score fields of the
  shared catalogue products.  It fails: the loop assigns to the catalogue's own objects,
  and after a request over a catalogue of one visible product with composite score 0
  that product's composite score is 0.38.
\<close>

theorem request_changes_catalogue_scores:
  "map composite_score
     (snd (curate_products config_off (world_with PostRaises) [sample_product] sample_request))
     = [19/50]
   \<and> map composite_score [sample_product] = [0]"
  by code_simp

lemma snd_curate_products:
  "snd (curate_products cfg w products request) = catalogue_after products (profile request)"
proof (cases "products = []")
  case True
  then show ?thesis by (simp add: curate_products_def catalogue_after_def)
next
  case False
  then show ?thesis by (simp add: curate_products_unfold)
qed

text \<open>
  C9, amended.  A request leaves the catalogue with every visible product carrying the
  four scores computed for the request's profile, in place; every other field of every
  product, and every product that is not visible, is unchanged.
\<close>

theorem scoring_writes_scores_in_place:
  "snd (curate_products cfg w products request)
     = map (\<lambda>p. if visible p then score_one (profile request) p else p) products
   \<and> map unscored (snd (curate_products cfg w products request)) = map unscored products"
  by (simp add: snd_curate_products catalogue_after_def unscored_score_one)

theorem scoring_writes_scores_in_place_witness:
  "snd (curate_products config_off (world_with PostRaises) [sample_product, hidden_product]
          sample_request)
     = [score_one sample_profile sample_product, hidden_product]"
  using scoring_writes_scores_in_place [of config_off "world_with PostRaises" "[sample_product, hidden_product]" sample_request]
  by (simp add: visible_samples sample_request_def)

text \<open>
  C10.  In each identifier list of the deterministic response the identifier at a
  position is the sku-or-id of the product at that position of the matching record
  list: the SKU when it is present and not empty, the id otherwise.  The re-mapping of
  the gateway's identifiers uses the same key: its index has exactly the candidates'
  sku-or-id values as keys, a key leads to a candidate with that sku-or-id, and the
  records found for a list of identifiers have, in order, the identifiers found.
\<close>

theorem identifiers_are_sku_or_id:
  "curatedProductIds (base_response w pr cands m)
      = map sku_or_id (curatedProducts (base_response w pr cands m))
   \<and> platinumSupplierProducts (base_response w pr cands m)
      = map sku_or_id (platinumProducts (base_response w pr cands m))
   \<and> bundledPacks (base_response w pr cands m)
      = map sku_or_id (bundledProducts (base_response w pr cands m))
   \<and> localFavorites (base_response w pr cands m)
      = map sku_or_id (localFavoriteProducts (base_response w pr cands m))
   \<and> sku_or_id p = (case sku p of Some s \<Rightarrow> if s \<noteq> [] then s else id_p p | None \<Rightarrow> id_p p)
   \<and> dom (sku_index cands) = sku_or_id ` set cands
   \<and> (\<forall>k q. sku_index cands k = Some q \<longrightarrow> q \<in> set cands \<and> sku_or_id q = k)
   \<and> map sku_or_id (map_skus_to_products skus cands)
      = filter (\<lambda>k. k \<in> sku_or_id ` set cands) skus"
proof -
  have a: "curatedProductIds (base_response w pr cands m)
      = map sku_or_id (curatedProducts (base_response w pr cands m))
   \<and> platinumSupplierProducts (base_response w pr cands m)
      = map sku_or_id (platinumProducts (base_response w pr cands m))
   \<and> bundledPacks (base_response w pr cands m)
      = map sku_or_id (bundledProducts (base_response w pr cands m))
   \<and> localFavorites (base_response w pr cands m)
      = map sku_or_id (localFavoriteProducts (base_response w pr cands m))"
    by (simp add: base_response_def Let_def)
  have b: "sku_or_id p = (case sku p of Some s \<Rightarrow> if s \<noteq> [] then s else id_p p | None \<Rightarrow> id_p p)"
    by (simp add: sku_or_id_def or_else_def)
  have c: "\<forall>k q. sku_index cands k = Some q \<longrightarrow> q \<in> set cands \<and> sku_or_id q = k"
    using sku_index_Some by blast
  from a b c sku_index_dom [of cands] map_skus_keys [of skus cands] show ?thesis
    by (intro conjI) simp_all
qed

theorem identifiers_are_sku_or_id_witness:
  "sku_index [with_sku] ''A1'' = Some with_sku
   \<and> with_sku \<in> set [with_sku] \<and> sku_or_id with_sku = ''A1''
   \<and> curatedProductIds (base_response (world_with PostRaises) sample_profile
        [with_sku, sample_product] 10) = [''A1'', ''0'']"
proof -
  have h: "sku_index [with_sku] ''A1'' = Some with_sku" by code_simp
  have c: "curatedProducts (base_response (world_with PostRaises) sample_profile
        [with_sku, sample_product] 10) = [with_sku, sample_product]"
    by (simp add: base_response_def Let_def py_take_def)
  have k: "sku_or_id sample_product = ''0''" by code_simp
  from identifiers_are_sku_or_id [of "world_with PostRaises" sample_profile "[with_sku]" 10
      with_sku "[]"] h
  have a: "with_sku \<in> set [with_sku] \<and> sku_or_id with_sku = ''A1''" by blast
  from identifiers_are_sku_or_id [of "world_with PostRaises" sample_profile
      "[with_sku, sample_product]" 10 with_sku "[]"]
  have "curatedProductIds (base_response (world_with PostRaises) sample_profile
        [with_sku, sample_product] 10)
      = map sku_or_id (curatedProducts (base_response (world_with PostRaises) sample_profile
        [with_sku, sample_product] 10))"
    by (rule conjunct1)
  then have b: "curatedProductIds (base_response (world_with PostRaises) sample_profile
        [with_sku, sample_product] 10) = [''A1'', ''0'']"
    using a by (simp only: c k list.map)
  from h a b show ?thesis by (intro conjI) simp_all
qed

end
